theory Spec2Isabelle
  imports Main "HOL-Library.Multiset"
begin

section \<open>Data model (src/types/dragdrop.ts)\<close>

text \<open>
  The exercise document \<open>DragDropExerciseV1\<close> and the placement record \<open>ItemPlacement\<close>.
  An optional field \<open>f?: T\<close> is a \<open>T option\<close>; \<open>zoneId: string | null\<close> is a
  \<open>string option\<close> with \<open>None\<close> for \<open>null\<close>. Both zones and items have a field
  \<open>id\<close> and a field \<open>color\<close>, so the record fields carry the prefixes \<open>z_\<close> and \<open>i_\<close>.
  \<open>points\<close> is a JS number. The type of numbers is the parameter \<open>'n\<close> of the
  model: scoring uses only its \<open>0\<close>, its \<open>1\<close> and its \<open>+\<close>, of which no law is
  assumed, and a truthiness test that is passed in. Zone and item ids, titles and texts
  are compared for equality only.
\<close>

datatype scoring = AllOrNothing | PerItem | NoScoring

record settings =
  shuffleItems :: bool
  allowMultiplePerZone :: bool
  snapToZone :: bool
  scoring :: scoring
  showInstantFeedback :: bool
  backgroundColor :: "string option"
  contentBackgroundColor :: "string option"
  zoneBackgroundColor :: "string option"
  zoneTextColor :: "string option"
  zoneBorderColor :: "string option"

record zone =
  z_id :: string
  z_title :: string
  z_description :: "string option"
  z_accepts :: "string list option"
  z_color :: "string option"

record feedback =
  fb_correct :: "string option"
  fb_incorrect :: "string option"

record 'n item =
  i_id :: string
  i_text :: string
  i_color :: "string option"
  correctZoneId :: string
  altCorrectZoneIds :: "string list option"
  points :: "'n option"
  i_feedback :: "feedback option"

record 'n exercise =
  version :: nat
  instructions :: "string option"
  settings :: settings
  zones :: "zone list"
  items :: "'n item list"

record placement =
  itemId :: string
  zoneId :: "string option"

text \<open>The component state: the two \<open>useState\<close> cells the claims are about.\<close>

record 'n state =
  st_exercise :: "'n exercise"
  st_placements :: "placement list"

section \<open>Constructors\<close>

definition defaultSettings :: settings where
  "defaultSettings =
     \<lparr>shuffleItems = True, allowMultiplePerZone = True, snapToZone = True,
      scoring = PerItem, showInstantFeedback = True,
      backgroundColor = Some ''#ffffff'', contentBackgroundColor = None,
      zoneBackgroundColor = None, zoneTextColor = None, zoneBorderColor = None\<rparr>"

definition createEmptyExercise :: "'n exercise" where
  "createEmptyExercise =
     \<lparr>version = 1, instructions = Some [], settings = defaultSettings,
      zones = [], items = []\<rparr>"

text \<open>Shorthands for a zone or an item with only the mandatory fields (and points) set.\<close>

definition mkZone :: "string \<Rightarrow> string \<Rightarrow> zone" where
  "mkZone zid title =
     \<lparr>z_id = zid, z_title = title, z_description = None, z_accepts = None, z_color = None\<rparr>"

definition mkItem :: "string \<Rightarrow> string \<Rightarrow> string \<Rightarrow> 'n option \<Rightarrow> 'n item" where
  "mkItem iid txt czid pts =
     \<lparr>i_id = iid, i_text = txt, i_color = None, correctZoneId = czid,
      altCorrectZoneIds = None, points = pts, i_feedback = None\<rparr>"

definition mkExercise :: "zone list \<Rightarrow> 'n item list \<Rightarrow> 'n exercise" where
  "mkExercise zs its = createEmptyExercise\<lparr>zones := zs, items := its\<rparr>"

text \<open>
  \<open>createSampleExercise\<close> calls \<open>uuidv4()\<close> six times; the six fresh ids are
  parameters here. \<open>loadSampleData\<close> then fills in the correct zones.
\<close>

definition createSampleExercise ::
  "string \<Rightarrow> string \<Rightarrow> string \<Rightarrow> string \<Rightarrow> string \<Rightarrow> string \<Rightarrow> 'n::one exercise" where
  "createSampleExercise u1 u2 u3 u4 u5 u6 =
     \<lparr>version = 1,
      instructions = Some ''Drag each item to its correct category.'',
      settings = defaultSettings,
      zones =
        [(mkZone u1 ''Fruits'')
           \<lparr>z_description := Some ''Natural sweet foods'', z_color := Some ''#10B981''\<rparr>,
         (mkZone u2 ''Vegetables'')
           \<lparr>z_description := Some ''Nutritious plant foods'', z_color := Some ''#F59E0B''\<rparr>],
      items =
        [mkItem u3 ''Apple'' [] (Some 1), mkItem u4 ''Carrot'' [] (Some 1),
         mkItem u5 ''Banana'' [] (Some 1), mkItem u6 ''Broccoli'' [] (Some 1)]\<rparr>"

section \<open>Placement accessors\<close>

text \<open>\<open>getZoneItems\<close>: the ids placed in the zone, then the exercise's items among them.\<close>

definition getZoneItems :: "'n exercise \<Rightarrow> placement list \<Rightarrow> string \<Rightarrow> 'n item list" where
  "getZoneItems ex ps zid =
     (let zoneItemIds = map itemId (filter (\<lambda>p. zoneId p = Some zid) ps)
      in filter (\<lambda>it. i_id it \<in> set zoneItemIds) (items ex))"

text \<open>\<open>getUnassignedItems\<close>: the items whose id no placement with a zone carries.\<close>

definition getUnassignedItems :: "'n exercise \<Rightarrow> placement list \<Rightarrow> 'n item list" where
  "getUnassignedItems ex ps =
     (let assignedItemIds = map itemId (filter (\<lambda>p. zoneId p \<noteq> None) ps)
      in filter (\<lambda>it. i_id it \<notin> set assignedItemIds) (items ex))"

text \<open>
  The number of collections among \<open>getZoneItems z\<close>, one per zone of the exercise, and
  \<open>getUnassignedItems\<close> that hold a given item.
\<close>

definition appearances :: "'n exercise \<Rightarrow> placement list \<Rightarrow> 'n item \<Rightarrow> nat" where
  "appearances ex ps it =
     length (filter (\<lambda>z. it \<in> set (getZoneItems ex ps (z_id z))) (zones ex))
     + (if it \<in> set (getUnassignedItems ex ps) then 1 else 0)"

text \<open>
  The spec's wording of \<open>unassignedItems()\<close>, for comparison with the code: the items
  whose placement is null or names a zone that the exercise does not have.
\<close>

definition spec_unassignedItems :: "'n exercise \<Rightarrow> placement list \<Rightarrow> 'n item list" where
  "spec_unassignedItems ex ps =
     filter (\<lambda>it. case find (\<lambda>p. itemId p = i_id it) ps of
                    None \<Rightarrow> True
                  | Some p \<Rightarrow> (case zoneId p of
                                None \<Rightarrow> True
                              | Some z \<Rightarrow> z \<notin> set (map z_id (zones ex))))
            (items ex)"

section \<open>Placement update\<close>

text \<open>
  The updater that \<open>handleDragEnd\<close> passes to \<open>setPlacements\<close>, and \<open>handleDragEnd\<close>
  itself on the event's \<open>active.id\<close> and \<open>over\<close> (\<open>None\<close> when there is no drop target,
  otherwise the id of the droppable).
\<close>

definition applyPlacement :: "string \<Rightarrow> string option \<Rightarrow> placement list \<Rightarrow> placement list" where
  "applyPlacement iid newZoneId ps =
     map (\<lambda>p. if itemId p = iid then p\<lparr>zoneId := newZoneId\<rparr> else p) ps"

definition handleDragEnd :: "string \<Rightarrow> string option \<Rightarrow> placement list \<Rightarrow> placement list" where
  "handleDragEnd active_id over ps =
     (case over of
        None \<Rightarrow> ps
      | Some over_id \<Rightarrow>
          applyPlacement active_id
            (if over_id = ''unassigned'' then None else Some over_id) ps)"

section \<open>Scoring\<close>

text \<open>
  \<open>item.points || 1\<close>: an absent or falsy value counts as 1. \<open>falsy\<close> is the
  truthiness test of the numbers (in JS it holds of \<open>0\<close>, \<open>-0\<close> and \<open>NaN\<close>).
\<close>

definition pointsOf :: "('n \<Rightarrow> bool) \<Rightarrow> 'n::one item \<Rightarrow> 'n" where
  "pointsOf falsy it = (case points it of None \<Rightarrow> 1 | Some p \<Rightarrow> if falsy p then 1 else p)"

text \<open>
  \<open>placement?.zoneId\<close> for the first placement of the item: \<open>undefined\<close> and \<open>null\<close>
  are both \<open>None\<close> (neither equals a string, and both become \<open>''\<close> under \<open>|| ''\<close>).
\<close>

definition placedZone :: "placement list \<Rightarrow> 'n item \<Rightarrow> string option" where
  "placedZone ps it =
     (case find (\<lambda>p. itemId p = i_id it) ps of None \<Rightarrow> None | Some p \<Rightarrow> zoneId p)"

definition orEmpty :: "string option \<Rightarrow> string" where
  "orEmpty z = (case z of None \<Rightarrow> [] | Some s \<Rightarrow> s)"

definition isCorrect :: "placement list \<Rightarrow> 'n item \<Rightarrow> bool" where
  "isCorrect ps it =
     (placedZone ps it = Some (correctZoneId it)
      \<or> (case altCorrectZoneIds it of
            None \<Rightarrow> False
          | Some alts \<Rightarrow> orEmpty (placedZone ps it) \<in> set alts))"

record 'n score =
  correct :: "string set"
  totalPoints :: 'n
  earnedPoints :: 'n

definition scoreItem ::
  "('n \<Rightarrow> bool) \<Rightarrow> placement list \<Rightarrow> 'n score \<Rightarrow> 'n::{one,plus} item \<Rightarrow> 'n score" where
  "scoreItem falsy ps s it =
     (let s1 = s\<lparr>totalPoints := totalPoints s + pointsOf falsy it\<rparr>
      in if isCorrect ps it
         then s1\<lparr>correct := insert (i_id it) (correct s1),
                 earnedPoints := earnedPoints s1 + pointsOf falsy it\<rparr>
         else s1)"

definition calculateScore ::
  "('n \<Rightarrow> bool) \<Rightarrow> 'n::{zero,one,plus} exercise \<Rightarrow> placement list \<Rightarrow> 'n score" where
  "calculateScore falsy ex ps =
     foldl (scoreItem falsy ps) \<lparr>correct = {}, totalPoints = 0, earnedPoints = 0\<rparr> (items ex)"

text \<open>
  The spec's wording of correctness: the placement's zone, when the item has one,
  is the correct zone or one of the alternates.
\<close>

definition spec_isCorrect :: "placement list \<Rightarrow> 'n item \<Rightarrow> bool" where
  "spec_isCorrect ps it =
     (case placedZone ps it of
        None \<Rightarrow> False
      | Some z \<Rightarrow> z = correctZoneId it
                  \<or> (case altCorrectZoneIds it of None \<Rightarrow> False | Some alts \<Rightarrow> z \<in> set alts))"

section \<open>Validation\<close>

text \<open>
  \<open>String.prototype.toLowerCase\<close> is the parameter \<open>toLowerCase\<close> of
  \<open>getValidationErrors\<close>.
\<close>

definition zoneRequired :: string where
  "zoneRequired = ''At least one zone is required''"

definition itemRequired :: string where
  "itemRequired = ''At least one item is required''"

definition invalidZoneError :: "'n item \<Rightarrow> string" where
  "invalidZoneError it =
     ''Item '' @ [CHR 0x22] @ i_text it @ [CHR 0x22] @ '' has invalid correct zone''"

definition titlesError :: string where
  "titlesError = ''Zone titles must be unique''"

definition getValidationErrors :: "(string \<Rightarrow> string) \<Rightarrow> 'n exercise \<Rightarrow> string list" where
  "getValidationErrors toLowerCase ex =
     (let e1 = (if length (zones ex) = 0 then [zoneRequired] else []);
          e2 = (if length (items ex) = 0 then [itemRequired] else []);
          e3 = concat (map (\<lambda>it.
                 if correctZoneId it = []
                    \<or> find (\<lambda>z. z_id z = correctZoneId it) (zones ex) = None
                 then [invalidZoneError it] else []) (items ex));
          zoneTitles = map (\<lambda>z. toLowerCase (z_title z)) (zones ex);
          e4 = (if card (set zoneTitles) \<noteq> length zoneTitles then [titlesError] else [])
      in e1 @ e2 @ e3 @ e4)"

section \<open>Editing operations\<close>

text \<open>The \<open>then\<close> callback of the load effect: a loaded document replaces the state.\<close>

definition initialPlacements :: "'n item list \<Rightarrow> placement list" where
  "initialPlacements its = map (\<lambda>it. \<lparr>itemId = i_id it, zoneId = None\<rparr>) its"

definition onLoaded :: "'n exercise \<Rightarrow> 'n state \<Rightarrow> 'n state" where
  "onLoaded loaded st =
     st\<lparr>st_exercise := loaded, st_placements := initialPlacements (items loaded)\<rparr>"

definition loadSampleData ::
  "string \<Rightarrow> string \<Rightarrow> string \<Rightarrow> string \<Rightarrow> string \<Rightarrow> string
     \<Rightarrow> 'n::one state \<Rightarrow> 'n state" where
  "loadSampleData u1 u2 u3 u4 u5 u6 st =
     (let sample0 = createSampleExercise u1 u2 u3 u4 u5 u6;
          fruitsId = z_id (zones sample0 ! 0);
          vegetablesId = z_id (zones sample0 ! 1);
          sample = sample0\<lparr>items :=
            [(items sample0 ! 0)\<lparr>correctZoneId := fruitsId\<rparr>,
             (items sample0 ! 1)\<lparr>correctZoneId := vegetablesId\<rparr>,
             (items sample0 ! 2)\<lparr>correctZoneId := fruitsId\<rparr>,
             (items sample0 ! 3)\<lparr>correctZoneId := vegetablesId\<rparr>]\<rparr>
      in st\<lparr>st_exercise := sample, st_placements := initialPlacements (items sample)\<rparr>)"

text \<open>
  \<open>onSave\<close> of the zone editor: with a zone being edited, the zone of that id is
  replaced (keeping the id); otherwise the new zone is appended under a fresh id \<open>uuid\<close>.
\<close>

definition saveZone :: "zone option \<Rightarrow> zone \<Rightarrow> string \<Rightarrow> 'n state \<Rightarrow> 'n state" where
  "saveZone editingZone z uuid st =
     (let ex = st_exercise st in
      case editingZone of
        Some ez \<Rightarrow>
          st\<lparr>st_exercise :=
               ex\<lparr>zones := map (\<lambda>z'. if z_id z' = z_id ez then z\<lparr>z_id := z_id ez\<rparr> else z')
                                (zones ex)\<rparr>\<rparr>
      | None \<Rightarrow> st\<lparr>st_exercise := ex\<lparr>zones := zones ex @ [z\<lparr>z_id := uuid\<rparr>]\<rparr>\<rparr>)"

text \<open>\<open>onSave\<close> of the item editor; a new item also gets an unassigned placement.\<close>

definition saveItem :: "'n item option \<Rightarrow> 'n item \<Rightarrow> string \<Rightarrow> 'n state \<Rightarrow> 'n state" where
  "saveItem editingItem it uuid st =
     (let ex = st_exercise st in
      case editingItem of
        Some ei \<Rightarrow>
          st\<lparr>st_exercise :=
               ex\<lparr>items := map (\<lambda>i. if i_id i = i_id ei then it\<lparr>i_id := i_id ei\<rparr> else i)
                                (items ex)\<rparr>\<rparr>
      | None \<Rightarrow>
          (let newItem = it\<lparr>i_id := uuid\<rparr> in
           st\<lparr>st_exercise := ex\<lparr>items := items ex @ [newItem]\<rparr>,
              st_placements := st_placements st @ [\<lparr>itemId = i_id newItem, zoneId = None\<rparr>]\<rparr>))"

definition deleteItem :: "string \<Rightarrow> 'n state \<Rightarrow> 'n state" where
  "deleteItem iid st =
     st\<lparr>st_placements := filter (\<lambda>p. itemId p \<noteq> iid) (st_placements st),
        st_exercise := (st_exercise st)
          \<lparr>items := filter (\<lambda>i. i_id i \<noteq> iid) (items (st_exercise st))\<rparr>\<rparr>"

text \<open>The zone's delete button: placements first, then the exercise.\<close>

definition deleteZone :: "string \<Rightarrow> 'n state \<Rightarrow> 'n state" where
  "deleteZone zid st =
     st\<lparr>st_placements :=
          map (\<lambda>p. if zoneId p = Some zid then p\<lparr>zoneId := None\<rparr> else p) (st_placements st),
        st_exercise := (st_exercise st)
          \<lparr>zones := filter (\<lambda>z. z_id z \<noteq> zid) (zones (st_exercise st)),
           items := map (\<lambda>it. if correctZoneId it = zid then it\<lparr>correctZoneId := []\<rparr> else it)
                        (items (st_exercise st))\<rparr>\<rparr>"

definition dragEnd :: "string \<Rightarrow> string option \<Rightarrow> 'n state \<Rightarrow> 'n state" where
  "dragEnd active_id over st =
     st\<lparr>st_placements := handleDragEnd active_id over (st_placements st)\<rparr>"

text \<open>The state-changing operations as one step function.\<close>

datatype 'n action =
    Loaded "'n exercise"
  | LoadSample string string string string string string
  | SaveZone "zone option" zone string
  | SaveItem "'n item option" "'n item" string
  | DeleteItem string
  | DeleteZone string
  | DragEnd string "string option"

fun step :: "'n::one action \<Rightarrow> 'n state \<Rightarrow> 'n state" where
  "step (Loaded ex) st = onLoaded ex st"
| "step (LoadSample u1 u2 u3 u4 u5 u6) st = loadSampleData u1 u2 u3 u4 u5 u6 st"
| "step (SaveZone ez z u) st = saveZone ez z u st"
| "step (SaveItem ei it u) st = saveItem ei it u st"
| "step (DeleteItem iid) st = deleteItem iid st"
| "step (DeleteZone zid) st = deleteZone zid st"
| "step (DragEnd a over) st = dragEnd a over st"

text \<open>
  One placement record per item: the item ids of the placement list are, with
  multiplicity, the ids of the exercise's items.
\<close>

definition onePlacementPerItem :: "'n state \<Rightarrow> bool" where
  "onePlacementPerItem st =
     (mset (map itemId (st_placements st)) = mset (map i_id (items (st_exercise st))))"

section \<open>Saving\<close>

text \<open>
  \<open>saveExercise\<close>. The outcome of \<open>fetch\<close> is an input: the response is ok, the
  response is not ok, or the call rejects. The browser state is the local storage and
  the toasts shown; \<open>JSON.stringify\<close> is the parameter \<open>stringify\<close>. A locator part
  is truthy when it is present and not the empty string. \<open>localStorage.setItem\<close>
  can throw (the quota is exceeded, or storage is blocked): whether the write succeeds
  is an input too, and since the write stands outside the \<open>try\<close> block a throwing
  write makes \<open>saveExercise\<close> reject. The result is therefore an error or the
  boolean, together with the browser state the call leaves behind. Console output is
  not modelled.
\<close>

datatype fetch_outcome = ResponseOk | ResponseNotOk | Rejected

datatype write_outcome = Written | WriteThrows

datatype save_error = StorageWriteError

record toast =
  variant :: "string option"
  title :: string
  description :: string

record browser =
  localStorage :: "string \<rightharpoonup> string"
  toasts :: "toast list"

definition truthy :: "string option \<Rightarrow> bool" where
  "truthy s = (case s of None \<Rightarrow> False | Some v \<Rightarrow> v \<noteq> [])"

definition saveFailedToast :: toast where
  "saveFailedToast =
     \<lparr>variant = Some ''destructive'', title = ''Save Failed'',
      description = ''Could not save to server. Changes saved locally.''\<rparr>"

definition storageKey :: string where
  "storageKey = ''dragdrop-exercise''"

definition setItem :: "write_outcome \<Rightarrow> string \<Rightarrow> string \<Rightarrow> browser \<Rightarrow> save_error + browser" where
  "setItem w k v b =
     (case w of
        Written \<Rightarrow> Inr (b\<lparr>localStorage := (localStorage b)(k \<mapsto> v)\<rparr>)
      | WriteThrows \<Rightarrow> Inl StorageWriteError)"

text \<open>The last two lines of \<open>saveExercise\<close>: the write, then \<open>return false\<close>.\<close>

definition saveLocally ::
  "('n exercise \<Rightarrow> string) \<Rightarrow> write_outcome \<Rightarrow> 'n exercise \<Rightarrow> browser
     \<Rightarrow> (save_error + bool) \<times> browser" where
  "saveLocally stringify w ex b =
     (case setItem w storageKey (stringify ex) b of
        Inl e \<Rightarrow> (Inl e, b)
      | Inr b' \<Rightarrow> (Inr False, b'))"

definition saveExercise ::
  "('n exercise \<Rightarrow> string) \<Rightarrow> fetch_outcome \<Rightarrow> write_outcome \<Rightarrow> 'n exercise
     \<Rightarrow> string option \<Rightarrow> string option \<Rightarrow> browser \<Rightarrow> (save_error + bool) \<times> browser" where
  "saveExercise stringify remote w ex courseId slideId b =
     (if truthy courseId \<and> truthy slideId then
        (case remote of
           ResponseOk \<Rightarrow> (Inr True, b)
         | _ \<Rightarrow> saveLocally stringify w ex (b\<lparr>toasts := toasts b @ [saveFailedToast]\<rparr>))
      else saveLocally stringify w ex b)"

text \<open>The state the component starts in, and a run of operations from a state.\<close>

definition initialState :: "'n state" where
  "initialState = \<lparr>st_exercise = createEmptyExercise, st_placements = []\<rparr>"

definition run :: "'n::one action list \<Rightarrow> 'n state \<Rightarrow> 'n state" where
  "run acts st = foldl (\<lambda>s a. step a s) st acts"

section \<open>Example data\<close>

text \<open>
  The spec's example: the zones Fruits (Z1) and Vegetables (Z2), the items Apple
  (correct zone Z1, 1 point) and Carrot (correct zone Z2, 1 point). The examples take
  their numbers in the integers, with \<open>0\<close> as the only falsy one; on the values they
  use (0, 1 and 2) integer sums are the sums of JS numbers.
\<close>

abbreviation fruits :: zone where
  "fruits \<equiv> mkZone ''Z1'' ''Fruits''"

abbreviation vegetables :: zone where
  "vegetables \<equiv> mkZone ''Z2'' ''Vegetables''"

abbreviation apple :: "int item" where
  "apple \<equiv> mkItem ''Apple'' ''Apple'' ''Z1'' (Some 1)"

abbreviation carrot :: "int item" where
  "carrot \<equiv> mkItem ''Carrot'' ''Carrot'' ''Z2'' (Some 1)"

abbreviation fruitExercise :: "int exercise" where
  "fruitExercise \<equiv> mkExercise [fruits, vegetables] [apple, carrot]"

abbreviation placed :: "string \<Rightarrow> string \<Rightarrow> placement" where
  "placed iid zid \<equiv> \<lparr>itemId = iid, zoneId = Some zid\<rparr>"

abbreviation unplaced :: "string \<Rightarrow> placement" where
  "unplaced iid \<equiv> \<lparr>itemId = iid, zoneId = None\<rparr>"

abbreviation isZero :: "int \<Rightarrow> bool" where
  "isZero \<equiv> (\<lambda>p. p = 0)"

lemmas example_defs = mkExercise_def mkZone_def mkItem_def createEmptyExercise_def

section \<open>Facts about lists of placements\<close>

lemma mem_filtered_ids:
  "(i \<in> set (map itemId (filter P ps))) = (\<exists>p \<in> set ps. itemId p = i \<and> P p)"
  by (induction ps) auto

lemma find_Some_mem:
  "find P xs = Some p \<Longrightarrow> p \<in> set xs \<and> P p"
  by (induction xs) (auto split: if_splits)

lemma find_distinct_itemId:
  "distinct (map itemId ps) \<Longrightarrow> p \<in> set ps \<Longrightarrow> find (\<lambda>q. itemId q = itemId p) ps = Some p"
  by (induction ps) auto

lemma length_filter_distinct:
  "distinct (map f xs) \<Longrightarrow> y \<in> set (map f xs) \<Longrightarrow> length (filter (\<lambda>x. f x = y) xs) = 1"
proof (induction xs)
  case Nil
  then show ?case by simp
next
  case (Cons a xs)
  show ?case
  proof (cases "f a = y")
    case True
    with Cons.prems have "y \<notin> f ` set xs" by simp
    then have "\<forall>x \<in> set xs. f x \<noteq> y" by blast
    then have "filter (\<lambda>x. f x = y) xs = []" by (simp add: filter_empty_conv)
    with True show ?thesis by simp
  next
    case False
    with Cons show ?thesis by auto
  qed
qed

text \<open>
  With at most one record per item id, having a record for the zone and having it as
  the first record found are the same.
\<close>

lemma placedZone_unique:
  assumes "distinct (map itemId ps)"
  shows "(\<exists>p \<in> set ps. itemId p = i_id it \<and> zoneId p = z) =
         (\<exists>p. find (\<lambda>q. itemId q = i_id it) ps = Some p \<and> zoneId p = z)"
proof
  assume "\<exists>p \<in> set ps. itemId p = i_id it \<and> zoneId p = z"
  then obtain p where p: "p \<in> set ps" "itemId p = i_id it" "zoneId p = z" by blast
  from find_distinct_itemId [OF assms p(1)] p(2,3)
  show "\<exists>p. find (\<lambda>q. itemId q = i_id it) ps = Some p \<and> zoneId p = z" by auto
next
  assume "\<exists>p. find (\<lambda>q. itemId q = i_id it) ps = Some p \<and> zoneId p = z"
  then obtain p where p: "find (\<lambda>q. itemId q = i_id it) ps = Some p" "zoneId p = z" by blast
  from p(1) have "p \<in> set ps \<and> itemId p = i_id it"
    by (rule find_Some_mem)
  with p(2) show "\<exists>p \<in> set ps. itemId p = i_id it \<and> zoneId p = z" by blast
qed

section \<open>The accessors as filters of the item list\<close>

lemma getZoneItems_conv:
  "getZoneItems ex ps zid =
     filter (\<lambda>it. \<exists>p \<in> set ps. itemId p = i_id it \<and> zoneId p = Some zid) (items ex)"
  unfolding getZoneItems_def Let_def mem_filtered_ids ..

lemma getUnassignedItems_conv:
  "getUnassignedItems ex ps =
     filter (\<lambda>it. \<forall>p \<in> set ps. itemId p = i_id it \<longrightarrow> zoneId p = None) (items ex)"
  unfolding getUnassignedItems_def Let_def mem_filtered_ids
  by (rule filter_cong) auto

lemma getZoneItems_placedZone:
  assumes "distinct (map itemId ps)"
  shows "getZoneItems (ex :: 'n exercise) ps zid
         = filter (\<lambda>it. placedZone ps it = Some zid) (items ex)"
proof -
  have "(\<exists>p \<in> set ps. itemId p = i_id it \<and> zoneId p = Some zid)
             = (placedZone ps it = Some zid)" for it :: "'n item"
    unfolding placedZone_unique [OF assms] placedZone_def
    by (auto split: option.splits)
  then show ?thesis by (simp add: getZoneItems_conv)
qed

lemma getUnassignedItems_placedZone:
  assumes "distinct (map itemId ps)"
  shows "getUnassignedItems (ex :: 'n exercise) ps
         = filter (\<lambda>it. placedZone ps it = None) (items ex)"
proof -
  have "(\<forall>p \<in> set ps. itemId p = i_id it \<longrightarrow> zoneId p = None) = (placedZone ps it = None)"
    for it :: "'n item"
  proof -
    have "(\<forall>p \<in> set ps. itemId p = i_id it \<longrightarrow> zoneId p = None)
          = (\<not> (\<exists>z. \<exists>p \<in> set ps. itemId p = i_id it \<and> zoneId p = Some z))"
    proof
      assume "\<forall>p \<in> set ps. itemId p = i_id it \<longrightarrow> zoneId p = None"
      then show "\<not> (\<exists>z. \<exists>p \<in> set ps. itemId p = i_id it \<and> zoneId p = Some z)"
        by auto
    next
      assume r: "\<not> (\<exists>z. \<exists>p \<in> set ps. itemId p = i_id it \<and> zoneId p = Some z)"
      show "\<forall>p \<in> set ps. itemId p = i_id it \<longrightarrow> zoneId p = None"
      proof (intro ballI impI)
        fix p assume "p \<in> set ps" "itemId p = i_id it"
        with r have "\<forall>z. zoneId p \<noteq> Some z" by auto
        then show "zoneId p = None" by (cases "zoneId p") auto
      qed
    qed
    also have "\<dots> = (\<not> (\<exists>z. placedZone ps it = Some z))"
      unfolding placedZone_unique [OF assms] placedZone_def
      by (auto split: option.splits)
    also have "\<dots> = (placedZone ps it = None)" by auto
    finally show ?thesis .
  qed
  then show ?thesis by (simp add: getUnassignedItems_conv)
qed

text \<open>
  Where every placed zone is a zone of the exercise and no item id has two records,
  the code's unassigned items are the spec's.
\<close>

lemma getUnassignedItems_spec:
  assumes "distinct (map itemId ps)"
    and "\<forall>p \<in> set ps. \<forall>z. zoneId p = Some z \<longrightarrow> z \<in> set (map z_id (zones ex))"
  shows "getUnassignedItems (ex :: 'n exercise) ps = spec_unassignedItems ex ps"
proof -
  have "(placedZone ps it = None)
      = (case find (\<lambda>p. itemId p = i_id it) ps of
                    None \<Rightarrow> True
                  | Some p \<Rightarrow> (case zoneId p of
                                None \<Rightarrow> True
                              | Some z \<Rightarrow> z \<notin> set (map z_id (zones ex))))" for it :: "'n item"
    using assms(2) by (auto simp: placedZone_def split: option.splits dest: find_Some_mem)
  then show ?thesis
    by (simp add: getUnassignedItems_placedZone [OF assms(1)] spec_unassignedItems_def)
qed

section \<open>Facts about the placement update\<close>

lemma applyPlacement_ids: "map itemId (applyPlacement a t ps) = map itemId ps"
  by (induction ps) (auto simp: applyPlacement_def)

lemma applyPlacement_idem: "applyPlacement a t (applyPlacement a t ps) = applyPlacement a t ps"
  by (induction ps) (auto simp: applyPlacement_def)

lemma applyPlacement_absent:
  "a \<notin> set (map itemId ps) \<Longrightarrow> applyPlacement a t ps = ps"
  by (induction ps) (auto simp: applyPlacement_def)

lemma applyPlacement_nth:
  "k < length ps \<Longrightarrow>
   applyPlacement a t ps ! k = (if itemId (ps ! k) = a then (ps ! k)\<lparr>zoneId := t\<rparr> else ps ! k)"
  by (simp add: applyPlacement_def)

lemma applyPlacement_None_unassigned:
  "p \<in> set (applyPlacement a None ps) \<Longrightarrow> itemId p = a \<Longrightarrow> zoneId p = None"
proof (induction ps)
  case Nil
  then show ?case by (simp add: applyPlacement_def)
next
  case (Cons q ps)
  from Cons.prems(1) have "p = (if itemId q = a then q\<lparr>zoneId := None\<rparr> else q)
      \<or> p \<in> set (applyPlacement a None ps)"
    by (simp add: applyPlacement_def)
  then show ?case
  proof
    assume "p = (if itemId q = a then q\<lparr>zoneId := None\<rparr> else q)"
    with Cons.prems(2) show ?thesis by (cases "itemId q = a") simp_all
  next
    assume "p \<in> set (applyPlacement a None ps)"
    with Cons.IH Cons.prems(2) show ?thesis by simp
  qed
qed

lemma unassigned_after_null:
  assumes "it \<in> set (items ex)"
  shows "it \<in> set (getUnassignedItems ex (applyPlacement (i_id it) None ps))"
proof -
  have "\<forall>p \<in> set (applyPlacement (i_id it) None ps). itemId p = i_id it \<longrightarrow> zoneId p = None"
    using applyPlacement_None_unassigned by blast
  with assms show ?thesis
    by (simp add: getUnassignedItems_conv)
qed

lemma handleDragEnd_ids: "map itemId (handleDragEnd a over ps) = map itemId ps"
  by (simp add: handleDragEnd_def applyPlacement_ids split: option.splits)

section \<open>Validation of an empty exercise\<close>

text \<open>
  C5: \<open>getValidationErrors\<close> on an exercise with no zone and no item returns a list (the
  function is total: nothing is thrown) that holds the zone-required error and the
  item-required error, the zone-required error first; it holds nothing else, whatever
  \<open>toLowerCase\<close> does.
\<close>

theorem validate_empty_exercise:
  "zones ex = [] \<Longrightarrow> items ex = [] \<Longrightarrow>
   getValidationErrors toLowerCase ex = [zoneRequired, itemRequired]"
  by (simp add: getValidationErrors_def)

theorem validate_empty_exercise_witness:
  "zones createEmptyExercise = [] \<and> items createEmptyExercise = []
   \<and> getValidationErrors (\<lambda>s. s) createEmptyExercise
       = [''At least one zone is required'', ''At least one item is required'']"
  using validate_empty_exercise [of createEmptyExercise "\<lambda>s. s"]
  by (simp add: createEmptyExercise_def zoneRequired_def itemRequired_def)

section \<open>Scoring\<close>

text \<open>
  The loop of \<open>calculateScore\<close> in closed form, from any starting accumulator: the
  total adds the point values up from the left, in item order; the correct set holds
  the ids of the items that \<open>isCorrect\<close> accepts; the earned points add the values of
  those items up in the same way. No law of \<open>+\<close> is used.
\<close>

lemma calculateScore_fold:
  "foldl (scoreItem falsy ps) s its =
     \<lparr>correct = correct s \<union> i_id ` {it \<in> set its. isCorrect ps it},
      totalPoints = foldl (+) (totalPoints s) (map (pointsOf falsy) its),
      earnedPoints =
        foldl (+) (earnedPoints s) (map (pointsOf falsy) (filter (isCorrect ps) its))\<rparr>"
proof (induction its arbitrary: s)
  case Nil
  show ?case by simp
next
  case (Cons a its)
  have "foldl (scoreItem falsy ps) s (a # its)
        = foldl (scoreItem falsy ps) (scoreItem falsy ps s a) its"
    by simp
  also have "\<dots> =
     \<lparr>correct = correct (scoreItem falsy ps s a) \<union> i_id ` {it \<in> set its. isCorrect ps it},
      totalPoints =
        foldl (+) (totalPoints (scoreItem falsy ps s a)) (map (pointsOf falsy) its),
      earnedPoints =
        foldl (+) (earnedPoints (scoreItem falsy ps s a))
          (map (pointsOf falsy) (filter (isCorrect ps) its))\<rparr>"
    by (rule Cons.IH)
  also have "\<dots> =
     \<lparr>correct = correct s \<union> i_id ` {it \<in> set (a # its). isCorrect ps it},
      totalPoints = foldl (+) (totalPoints s) (map (pointsOf falsy) (a # its)),
      earnedPoints =
        foldl (+) (earnedPoints s)
          (map (pointsOf falsy) (filter (isCorrect ps) (a # its)))\<rparr>"
    by (auto simp: scoreItem_def Let_def)
  finally show ?case .
qed

lemma calculateScore_closed_form:
  "calculateScore falsy ex ps =
     \<lparr>correct = i_id ` {it \<in> set (items ex). isCorrect ps it},
      totalPoints = foldl (+) 0 (map (pointsOf falsy) (items ex)),
      earnedPoints = foldl (+) 0 (map (pointsOf falsy) (filter (isCorrect ps) (items ex)))\<rparr>"
  by (simp add: calculateScore_def calculateScore_fold)

text \<open>Where \<open>+\<close> is associative with unit \<open>0\<close>, as on the integers, these are the sums.\<close>

lemma foldl_plus_sum_list:
  "foldl (+) a xs = a + sum_list (xs :: 'n::monoid_add list)"
  by (induction xs arbitrary: a) (simp_all add: add.assoc)

lemma calculateScore_sums:
  "calculateScore falsy (ex :: 'n::{monoid_add,one} exercise) ps =
     \<lparr>correct = i_id ` {it \<in> set (items ex). isCorrect ps it},
      totalPoints = sum_list (map (pointsOf falsy) (items ex)),
      earnedPoints = sum_list (map (pointsOf falsy) (filter (isCorrect ps) (items ex)))\<rparr>"
  by (simp add: calculateScore_closed_form foldl_plus_sum_list)

text \<open>
  The code's test for a correct item against the spec's: they differ exactly on an
  item with no zone (unplaced, or without a record) whose alternates hold the empty
  string, because \<open>placement?.zoneId || ''\<close> looks the missing zone up as \<open>''\<close>.
\<close>

lemma isCorrect_spec_or_empty:
  "isCorrect ps it =
     (spec_isCorrect ps it
      \<or> (placedZone ps it = None
          \<and> (\<exists>alts. altCorrectZoneIds it = Some alts \<and> [] \<in> set alts)))"
  by (auto simp: isCorrect_def spec_isCorrect_def orEmpty_def split: option.splits)

lemma isCorrect_spec_placed:
  "placedZone ps it = Some z \<Longrightarrow> isCorrect ps it = spec_isCorrect ps it"
  by (simp add: isCorrect_spec_or_empty)

text \<open>The spec's example: Apple and Carrot both placed in Z1.\<close>

lemma calculateScore_example:
  "calculateScore isZero fruitExercise [placed ''Apple'' ''Z1'', placed ''Carrot'' ''Z1'']
   = \<lparr>correct = {''Apple''}, totalPoints = 2, earnedPoints = 1\<rparr>"
  by (simp add: calculateScore_def example_defs scoreItem_def isCorrect_def placedZone_def
      pointsOf_def orEmpty_def)

text \<open>
  The unplaced item with the alternates \<open>['']\<close> is counted as correct in every number
  type: the sums are left as the code forms them, \<open>0 + 1\<close>.
\<close>

lemma calculateScore_unplaced_counted_any_numbers:
  "calculateScore falsy
     (mkExercise [fruits] [(mkItem ''a'' ''Apple'' ''Z1'' (Some 1))\<lparr>altCorrectZoneIds := Some [[]]\<rparr>])
     [unplaced ''a'']
   = \<lparr>correct = {''a''}, totalPoints = 0 + 1, earnedPoints = 0 + 1\<rparr>"
  by (simp add: calculateScore_def example_defs scoreItem_def isCorrect_def
      placedZone_def pointsOf_def orEmpty_def)

text \<open>
  C1: \<open>calculateScore\<close> returns the correct ids, the total and the earned points, an
  item being correct iff its placement's zone is its correct zone or one of its
  alternates. The code departs from this on an item that is not placed: for the item
  \<open>a\<close> with correct zone Z1 and the alternates \<open>['']\<close>, left unassigned, the spec's
  test fails (no zone is placed), yet \<open>calculateScore\<close> counts the item as correct and
  awards its point.
\<close>

theorem calculateScore_unplaced_counted:
  "placedZone [unplaced ''a'']
     ((mkItem ''a'' ''Apple'' ''Z1'' (Some (1::int)))\<lparr>altCorrectZoneIds := Some [[]]\<rparr>)
     = None
   \<and> spec_isCorrect [unplaced ''a'']
        ((mkItem ''a'' ''Apple'' ''Z1'' (Some (1::int)))\<lparr>altCorrectZoneIds := Some [[]]\<rparr>) = False
   \<and> calculateScore isZero
        (mkExercise [fruits]
           [(mkItem ''a'' ''Apple'' ''Z1'' (Some (1::int)))\<lparr>altCorrectZoneIds := Some [[]]\<rparr>])
        [unplaced ''a'']
      = \<lparr>correct = {''a''}, totalPoints = 1, earnedPoints = 1\<rparr>"
  by (simp add: calculateScore_def example_defs scoreItem_def isCorrect_def spec_isCorrect_def
      placedZone_def pointsOf_def orEmpty_def)

section \<open>The accessors and the partition of the items\<close>

text \<open>
  C2, as stated for every placement state, fails: with the single zone Z1 and the
  single item Apple, a placement of Apple in a zone Z9 that the exercise does not
  have puts Apple in no collection at all.
\<close>

theorem partition_fails_on_unknown_zone:
  "zones (mkExercise [fruits] [apple]) \<noteq> []
   \<and> apple \<in> set (items (mkExercise [fruits] [apple]))
   \<and> appearances (mkExercise [fruits] [apple]) [placed ''Apple'' ''Z9''] apple = 0"
  by (simp add: appearances_def getZoneItems_def getUnassignedItems_def example_defs)

text \<open>
  C2 (amended): for every exercise whose zone ids are distinct and every placement
  list that holds at most one record per item id and whose zone ids are all ids of
  zones of the exercise, each item of the exercise appears in exactly one of the
  collections \<open>getZoneItems z\<close>, for the zones \<open>z\<close> of the exercise, and
  \<open>getUnassignedItems\<close>.
\<close>

theorem placements_partition_items:
  assumes dz: "distinct (map z_id (zones ex))"
    and dp: "distinct (map itemId ps)"
    and valid: "\<forall>p \<in> set ps. \<forall>z. zoneId p = Some z \<longrightarrow> z \<in> set (map z_id (zones ex))"
    and it: "it \<in> set (items ex)"
  shows "appearances ex ps it = 1"
proof (cases "placedZone ps it")
  case None
  then have u: "it \<in> set (getUnassignedItems ex ps)"
    using it by (simp add: getUnassignedItems_placedZone [OF dp])
  from None have "filter (\<lambda>z. it \<in> set (getZoneItems ex ps (z_id z))) (zones ex) = []"
    by (simp add: getZoneItems_placedZone [OF dp] filter_empty_conv)
  with u show ?thesis by (simp add: appearances_def)
next
  case (Some z0)
  then have u: "it \<notin> set (getUnassignedItems ex ps)"
    by (simp add: getUnassignedItems_placedZone [OF dp])
  from Some obtain p where "p \<in> set ps" "zoneId p = Some z0"
    by (auto simp: placedZone_def split: option.splits dest: find_Some_mem)
  with valid have z0: "z0 \<in> set (map z_id (zones ex))" by blast
  have "filter (\<lambda>z. it \<in> set (getZoneItems ex ps (z_id z))) (zones ex)
        = filter (\<lambda>z. z_id z = z0) (zones ex)"
    using Some it by (auto simp: getZoneItems_placedZone [OF dp] intro!: filter_cong)
  with length_filter_distinct [OF dz z0] u show ?thesis
    by (simp add: appearances_def)
qed

theorem placements_partition_items_witness:
  "distinct (map z_id (zones fruitExercise))
   \<and> distinct (map itemId [placed ''Apple'' ''Z1'', unplaced ''Carrot''])
   \<and> apple \<in> set (items fruitExercise)
   \<and> appearances fruitExercise [placed ''Apple'' ''Z1'', unplaced ''Carrot''] apple = 1"
proof -
  have h1: "distinct (map z_id (zones fruitExercise))"
    by (simp add: example_defs)
  have h2: "distinct (map itemId [placed ''Apple'' ''Z1'', unplaced ''Carrot''])"
    by simp
  have h3: "\<forall>p \<in> set [placed ''Apple'' ''Z1'', unplaced ''Carrot''].
              \<forall>z. zoneId p = Some z \<longrightarrow> z \<in> set (map z_id (zones fruitExercise))"
    by (simp add: example_defs)
  have h4: "apple \<in> set (items fruitExercise)"
    by (simp add: example_defs)
  from placements_partition_items [OF h1 h2 h3 h4] h1 h2 h4 show ?thesis
    by simp
qed

section \<open>Unassigned items\<close>

text \<open>
  C3, as stated, fails: \<open>getUnassignedItems\<close> never looks at the zone list. With the
  single zone Z1 and Apple placed in a zone Z9 that the exercise does not have, the
  spec's unassigned items are \<open>[Apple]\<close> and the code's are none.
\<close>

theorem unassigned_ignores_unknown_zone:
  "getUnassignedItems (mkExercise [fruits] [apple]) [placed ''Apple'' ''Z9''] = []
   \<and> spec_unassignedItems (mkExercise [fruits] [apple]) [placed ''Apple'' ''Z9''] = [apple]"
  by (simp add: spec_unassignedItems_def getUnassignedItems_def example_defs)

text \<open>
  C3 (amended): for every exercise and placement list, \<open>getUnassignedItems\<close> returns,
  in the exercise's item order, exactly the items all of whose placement records are
  null (among them the items with no record); whether a placed zone id is in the
  exercise's zone list plays no part.
\<close>

theorem unassigned_are_items_without_zone:
  "getUnassignedItems ex ps =
     filter (\<lambda>it. \<forall>p \<in> set ps. itemId p = i_id it \<longrightarrow> zoneId p = None) (items ex)"
  by (rule getUnassignedItems_conv)

theorem unassigned_are_items_without_zone_witness:
  "getUnassignedItems fruitExercise [placed ''Apple'' ''Z9'', unplaced ''Carrot''] = [carrot]"
  using unassigned_are_items_without_zone
    [of fruitExercise "[placed ''Apple'' ''Z9'', unplaced ''Carrot'']"]
  by (simp add: example_defs)

section \<open>Placing and unplacing\<close>

text \<open>
  C4: for every exercise, placement list and item of the exercise, placing the item
  in a zone \<open>z\<close> and then placing it with the null target makes the item a member of
  \<open>getUnassignedItems\<close> (through the updater and through \<open>handleDragEnd\<close> with the
  droppable \<open>unassigned\<close>, and whether or not the item had a record); and applying the
  same placement twice gives the same placement list as applying it once.
\<close>

theorem place_then_unplace_unassigned:
  "(it \<in> set (items ex) \<longrightarrow>
      it \<in> set (getUnassignedItems ex
                  (applyPlacement (i_id it) None (applyPlacement (i_id it) (Some z) ps)))
      \<and> it \<in> set (getUnassignedItems ex
                  (handleDragEnd (i_id it) (Some ''unassigned'')
                     (handleDragEnd (i_id it) (Some z) ps))))
   \<and> applyPlacement a t (applyPlacement a t ps) = applyPlacement a t ps
   \<and> handleDragEnd a over (handleDragEnd a over ps) = handleDragEnd a over ps"
proof (intro conjI impI)
  assume it: "it \<in> set (items ex)"
  show "it \<in> set (getUnassignedItems ex
                  (applyPlacement (i_id it) None (applyPlacement (i_id it) (Some z) ps)))"
    by (rule unassigned_after_null [OF it])
  have "handleDragEnd (i_id it) (Some ''unassigned'') (handleDragEnd (i_id it) (Some z) ps)
        = applyPlacement (i_id it) None (handleDragEnd (i_id it) (Some z) ps)"
    by (simp add: handleDragEnd_def)
  then show "it \<in> set (getUnassignedItems ex
                  (handleDragEnd (i_id it) (Some ''unassigned'')
                     (handleDragEnd (i_id it) (Some z) ps)))"
    by (simp add: unassigned_after_null [OF it])
next
  show "applyPlacement a t (applyPlacement a t ps) = applyPlacement a t ps"
    by (rule applyPlacement_idem)
  show "handleDragEnd a over (handleDragEnd a over ps) = handleDragEnd a over ps"
    by (simp add: handleDragEnd_def applyPlacement_idem split: option.splits)
qed

theorem place_then_unplace_unassigned_witness:
  "apple \<in> set (items fruitExercise)
   \<and> apple \<in> set (getUnassignedItems fruitExercise
        (applyPlacement ''Apple'' None
           (applyPlacement ''Apple'' (Some ''Z2'') [placed ''Apple'' ''Z1'', unplaced ''Carrot''])))
   \<and> handleDragEnd ''Apple'' (Some ''Z2'')
        (handleDragEnd ''Apple'' (Some ''Z2'') [placed ''Apple'' ''Z1'', unplaced ''Carrot''])
      = [placed ''Apple'' ''Z2'', unplaced ''Carrot'']"
proof -
  have h: "apple \<in> set (items fruitExercise)"
    by (simp add: example_defs)
  have i: "i_id apple = ''Apple''"
    by (simp add: example_defs)
  have e: "handleDragEnd ''Apple'' (Some ''Z2'') [placed ''Apple'' ''Z1'', unplaced ''Carrot'']
           = [placed ''Apple'' ''Z2'', unplaced ''Carrot'']"
    by (simp add: handleDragEnd_def applyPlacement_def)
  from place_then_unplace_unassigned
    [of apple fruitExercise "''Z2''" "[placed ''Apple'' ''Z1'', unplaced ''Carrot'']"
        "''Apple''" "Some ''Z2''" "Some ''Z2''"] h i e
  show ?thesis by simp
qed

section \<open>Zone items\<close>

text \<open>
  C8: for every exercise, placement list and zone id, \<open>getZoneItems\<close> returns exactly
  the items that have a placement record in that zone, in the order of the exercise's
  item list (it is a filter of that list, whatever the order of the placement records).
\<close>

theorem zone_items_in_item_order:
  "getZoneItems ex ps zid =
     filter (\<lambda>it. \<exists>p \<in> set ps. itemId p = i_id it \<and> zoneId p = Some zid) (items ex)"
  by (rule getZoneItems_conv)

theorem zone_items_in_item_order_witness:
  "getZoneItems fruitExercise [placed ''Carrot'' ''Z1'', placed ''Apple'' ''Z1''] ''Z1''
   = [apple, carrot]"
  using zone_items_in_item_order
    [of fruitExercise "[placed ''Carrot'' ''Z1'', placed ''Apple'' ''Z1'']" "''Z1''"]
  by (simp add: example_defs)

section \<open>Frame of the placement update\<close>

text \<open>
  C9: a drag end with no drop target, or for an item id that has no placement record,
  leaves the placement list as it is; a drag end never adds or removes a record (the
  item ids of the list stay the same, in the same order), and a record of another item
  is not changed.
\<close>

theorem drag_end_frame:
  "handleDragEnd a None ps = ps
   \<and> (a \<notin> set (map itemId ps) \<longrightarrow> handleDragEnd a over ps = ps)
   \<and> map itemId (handleDragEnd a over ps) = map itemId ps
   \<and> (\<forall>k < length ps. itemId (ps ! k) \<noteq> a \<longrightarrow> handleDragEnd a over ps ! k = ps ! k)"
proof (intro conjI impI allI)
  show "handleDragEnd a None ps = ps" by (simp add: handleDragEnd_def)
  show "map itemId (handleDragEnd a over ps) = map itemId ps"
    by (rule handleDragEnd_ids)
next
  assume "a \<notin> set (map itemId ps)"
  then show "handleDragEnd a over ps = ps"
    by (simp add: handleDragEnd_def applyPlacement_absent split: option.splits)
next
  fix k assume "k < length ps" "itemId (ps ! k) \<noteq> a"
  then show "handleDragEnd a over ps ! k = ps ! k"
    by (simp add: handleDragEnd_def applyPlacement_nth split: option.splits)
qed

theorem drag_end_frame_witness:
  "''Banana'' \<notin> set (map itemId [placed ''Apple'' ''Z1'', unplaced ''Carrot''])
   \<and> handleDragEnd ''Banana'' (Some ''Z2'') [placed ''Apple'' ''Z1'', unplaced ''Carrot'']
       = [placed ''Apple'' ''Z1'', unplaced ''Carrot'']
   \<and> handleDragEnd ''Apple'' None [placed ''Apple'' ''Z1'', unplaced ''Carrot'']
       = [placed ''Apple'' ''Z1'', unplaced ''Carrot'']"
proof -
  have h: "''Banana'' \<notin> set (map itemId [placed ''Apple'' ''Z1'', unplaced ''Carrot''])"
    by simp
  from drag_end_frame
    [of "''Banana''" "[placed ''Apple'' ''Z1'', unplaced ''Carrot'']" "Some ''Z2''"] h
  have "handleDragEnd ''Banana'' (Some ''Z2'') [placed ''Apple'' ''Z1'', unplaced ''Carrot'']
       = [placed ''Apple'' ''Z1'', unplaced ''Carrot'']"
    by blast
  moreover from drag_end_frame
    [of "''Apple''" "[placed ''Apple'' ''Z1'', unplaced ''Carrot'']" None]
  have "handleDragEnd ''Apple'' None [placed ''Apple'' ''Z1'', unplaced ''Carrot'']
       = [placed ''Apple'' ''Z1'', unplaced ''Carrot'']"
    by blast
  ultimately show ?thesis using h by blast
qed

section \<open>Deleting a zone\<close>

text \<open>
  C6: deleting the zone \<open>zid\<close> removes it from the zone list and keeps the other
  zones in order; every placement in that zone becomes unassigned and every other
  placement record stays as it is, so that no placement names the zone afterwards;
  every item whose correct zone was \<open>zid\<close> gets the empty correct zone and is
  otherwise unchanged, every other item stays as it is; version, instructions and
  settings are untouched.
\<close>

theorem delete_zone_effect:
  "zones (st_exercise (deleteZone zid st)) = filter (\<lambda>z. z_id z \<noteq> zid) (zones (st_exercise st))
   \<and> zid \<notin> set (map z_id (zones (st_exercise (deleteZone zid st))))
   \<and> length (st_placements (deleteZone zid st)) = length (st_placements st)
   \<and> (\<forall>k < length (st_placements st).
        st_placements (deleteZone zid st) ! k =
          (if zoneId (st_placements st ! k) = Some zid
           then (st_placements st ! k)\<lparr>zoneId := None\<rparr> else st_placements st ! k))
   \<and> (\<forall>p \<in> set (st_placements (deleteZone zid st)). zoneId p \<noteq> Some zid)
   \<and> length (items (st_exercise (deleteZone zid st))) = length (items (st_exercise st))
   \<and> (\<forall>k < length (items (st_exercise st)).
        items (st_exercise (deleteZone zid st)) ! k =
          (if correctZoneId (items (st_exercise st) ! k) = zid
           then (items (st_exercise st) ! k)\<lparr>correctZoneId := []\<rparr>
           else items (st_exercise st) ! k))
   \<and> version (st_exercise (deleteZone zid st)) = version (st_exercise st)
   \<and> instructions (st_exercise (deleteZone zid st)) = instructions (st_exercise st)
   \<and> settings (st_exercise (deleteZone zid st)) = settings (st_exercise st)"
proof (intro conjI)
  show "zones (st_exercise (deleteZone zid st))
        = filter (\<lambda>z. z_id z \<noteq> zid) (zones (st_exercise st))"
    by (simp add: deleteZone_def)
  show "zid \<notin> set (map z_id (zones (st_exercise (deleteZone zid st))))"
    by (auto simp: deleteZone_def)
  show "length (st_placements (deleteZone zid st)) = length (st_placements st)"
    by (simp add: deleteZone_def)
  show "\<forall>k < length (st_placements st).
        st_placements (deleteZone zid st) ! k =
          (if zoneId (st_placements st ! k) = Some zid
           then (st_placements st ! k)\<lparr>zoneId := None\<rparr> else st_placements st ! k)"
    by (simp add: deleteZone_def)
  show "\<forall>p \<in> set (st_placements (deleteZone zid st)). zoneId p \<noteq> Some zid"
    by (auto simp: deleteZone_def)
  show "length (items (st_exercise (deleteZone zid st))) = length (items (st_exercise st))"
    by (simp add: deleteZone_def)
  show "\<forall>k < length (items (st_exercise st)).
        items (st_exercise (deleteZone zid st)) ! k =
          (if correctZoneId (items (st_exercise st) ! k) = zid
           then (items (st_exercise st) ! k)\<lparr>correctZoneId := []\<rparr>
           else items (st_exercise st) ! k)"
    by (simp add: deleteZone_def)
  show "version (st_exercise (deleteZone zid st)) = version (st_exercise st)"
    by (simp add: deleteZone_def)
  show "instructions (st_exercise (deleteZone zid st)) = instructions (st_exercise st)"
    by (simp add: deleteZone_def)
  show "settings (st_exercise (deleteZone zid st)) = settings (st_exercise st)"
    by (simp add: deleteZone_def)
qed

theorem delete_zone_effect_witness:
  "zones (st_exercise (deleteZone ''Z1''
      \<lparr>st_exercise = fruitExercise,
       st_placements = [placed ''Apple'' ''Z1'', placed ''Carrot'' ''Z2'']\<rparr>)) = [vegetables]
   \<and> st_placements (deleteZone ''Z1''
      \<lparr>st_exercise = fruitExercise,
       st_placements = [placed ''Apple'' ''Z1'', placed ''Carrot'' ''Z2'']\<rparr>) ! 0
      = unplaced ''Apple''
   \<and> st_placements (deleteZone ''Z1''
      \<lparr>st_exercise = fruitExercise,
       st_placements = [placed ''Apple'' ''Z1'', placed ''Carrot'' ''Z2'']\<rparr>) ! 1
      = placed ''Carrot'' ''Z2''
   \<and> items (st_exercise (deleteZone ''Z1''
      \<lparr>st_exercise = fruitExercise,
       st_placements = [placed ''Apple'' ''Z1'', placed ''Carrot'' ''Z2'']\<rparr>)) ! 0
      = apple\<lparr>correctZoneId := []\<rparr>
   \<and> items (st_exercise (deleteZone ''Z1''
      \<lparr>st_exercise = fruitExercise,
       st_placements = [placed ''Apple'' ''Z1'', placed ''Carrot'' ''Z2'']\<rparr>)) ! 1
      = carrot"
  using delete_zone_effect
    [of "''Z1''" "\<lparr>st_exercise = fruitExercise,
                  st_placements = [placed ''Apple'' ''Z1'', placed ''Carrot'' ''Z2'']\<rparr>"]
  by (simp add: example_defs)

section \<open>One placement record per item\<close>

lemma mset_ids_filter:
  assumes "mset (map f xs) = mset (map g ys)"
  shows "mset (map f (filter (\<lambda>x. P (f x)) xs)) = mset (map g (filter (\<lambda>y. P (g y)) ys))"
proof -
  have "mset (map f (filter (\<lambda>x. P (f x)) xs)) = filter_mset P (mset (map f xs))"
    by (induction xs) auto
  moreover have "mset (map g (filter (\<lambda>y. P (g y)) ys)) = filter_mset P (mset (map g ys))"
    by (induction ys) auto
  ultimately show ?thesis using assms by simp
qed

lemma initialPlacements_ids: "map itemId (initialPlacements its) = map i_id its"
  by (simp add: initialPlacements_def comp_def)

lemma initialState_inv: "onePlacementPerItem initialState"
  by (simp add: onePlacementPerItem_def initialState_def createEmptyExercise_def)

lemma onLoaded_inv: "onePlacementPerItem (onLoaded ex st)"
  unfolding onePlacementPerItem_def
  by (simp add: onLoaded_def initialPlacements_ids del: mset_map)

lemma loadSampleData_inv: "onePlacementPerItem (loadSampleData u1 u2 u3 u4 u5 u6 st)"
  unfolding onePlacementPerItem_def
  by (simp add: loadSampleData_def Let_def initialPlacements_ids del: mset_map)

text \<open>The sample data as loaded: four items, each with its zone, all unassigned.\<close>

lemma loadSampleData_result:
  "items (st_exercise (loadSampleData u1 u2 u3 u4 u5 u6 st)) =
     [mkItem u3 ''Apple'' u1 (Some 1), mkItem u4 ''Carrot'' u2 (Some 1),
      mkItem u5 ''Banana'' u1 (Some 1), mkItem u6 ''Broccoli'' u2 (Some 1)]
   \<and> map z_id (zones (st_exercise (loadSampleData u1 u2 u3 u4 u5 u6 st))) = [u1, u2]
   \<and> st_placements (loadSampleData u1 u2 u3 u4 u5 u6 st) =
     [unplaced u3, unplaced u4, unplaced u5, unplaced u6]"
  by (simp add: loadSampleData_def Let_def createSampleExercise_def initialPlacements_def
      mkItem_def mkZone_def)

lemma saveZone_inv: "onePlacementPerItem st \<Longrightarrow> onePlacementPerItem (saveZone ez z u st)"
  by (simp add: onePlacementPerItem_def saveZone_def Let_def split: option.splits)

lemma edit_ids:
  "map i_id (map (\<lambda>i. if i_id i = e then it\<lparr>i_id := e\<rparr> else i) xs) = map i_id xs"
  by (induction xs) auto

lemma saveItem_inv: "onePlacementPerItem st \<Longrightarrow> onePlacementPerItem (saveItem ei it u st)"
proof (cases ei)
  case None
  assume "onePlacementPerItem st"
  with None show ?thesis
    by (simp add: onePlacementPerItem_def saveItem_def Let_def)
next
  case (Some e)
  assume "onePlacementPerItem st"
  with Some edit_ids [of "i_id e" it "items (st_exercise st)"] show ?thesis
    by (simp add: onePlacementPerItem_def saveItem_def Let_def del: mset_map map_map)
qed

lemma deleteItem_inv: "onePlacementPerItem st \<Longrightarrow> onePlacementPerItem (deleteItem iid st)"
  unfolding onePlacementPerItem_def deleteItem_def
  using mset_ids_filter
    [of itemId "st_placements st" i_id "items (st_exercise st)" "\<lambda>i. i \<noteq> iid"]
  by (simp del: mset_map mset_filter)

lemma clear_ids:
  "map i_id (map (\<lambda>it. if correctZoneId it = z then it\<lparr>correctZoneId := []\<rparr> else it) xs)
   = map i_id xs"
  by (induction xs) auto

lemma unplace_ids:
  "map itemId (map (\<lambda>p. if zoneId p = Some z then p\<lparr>zoneId := None\<rparr> else p) ps)
   = map itemId ps"
  by (induction ps) auto

lemma deleteZone_inv: "onePlacementPerItem st \<Longrightarrow> onePlacementPerItem (deleteZone zid st)"
  unfolding onePlacementPerItem_def
  by (simp add: deleteZone_def clear_ids unplace_ids del: mset_map map_map)

lemma dragEnd_inv: "onePlacementPerItem st \<Longrightarrow> onePlacementPerItem (dragEnd a over st)"
  unfolding onePlacementPerItem_def
  by (simp add: dragEnd_def handleDragEnd_ids del: mset_map)

lemma step_inv: "onePlacementPerItem st \<Longrightarrow> onePlacementPerItem (step a st)"
  by (cases a)
    (simp_all add: onLoaded_inv loadSampleData_inv saveZone_inv saveItem_inv deleteItem_inv
       deleteZone_inv dragEnd_inv)

text \<open>Every state that a run of operations reaches from the initial state has it.\<close>

lemma run_inv: "onePlacementPerItem st \<Longrightarrow> onePlacementPerItem (run acts st)"
  unfolding run_def
  by (induction acts arbitrary: st) (simp_all add: step_inv)

lemma reachable_inv: "onePlacementPerItem (run acts initialState)"
  by (rule run_inv [OF initialState_inv])

text \<open>
  C10: every operation that changes the state (a loaded exercise, the sample data,
  saving a zone, adding or editing an item, deleting an item, deleting a zone, a drag
  end) keeps one placement record per item: the item ids of the placement list are,
  with multiplicity, the ids of the exercise's items. A load and the sample data
  establish this from any state.
\<close>

theorem operations_keep_one_placement_per_item:
  "(onePlacementPerItem st \<longrightarrow> onePlacementPerItem (step a st))
   \<and> onePlacementPerItem (onLoaded loaded st)
   \<and> onePlacementPerItem (loadSampleData u1 u2 u3 u4 u5 u6 st)"
  by (simp add: step_inv onLoaded_inv loadSampleData_inv)

theorem operations_keep_one_placement_per_item_witness:
  "onePlacementPerItem
     \<lparr>st_exercise = fruitExercise,
      st_placements = [placed ''Apple'' ''Z1'', unplaced ''Carrot'']\<rparr>
   \<and> onePlacementPerItem (step (DeleteItem ''Apple'')
       \<lparr>st_exercise = fruitExercise,
        st_placements = [placed ''Apple'' ''Z1'', unplaced ''Carrot'']\<rparr>)
   \<and> st_placements (step (DeleteItem ''Apple'')
       \<lparr>st_exercise = fruitExercise,
        st_placements = [placed ''Apple'' ''Z1'', unplaced ''Carrot'']\<rparr>) = [unplaced ''Carrot'']
   \<and> items (st_exercise (step (DeleteItem ''Apple'')
       \<lparr>st_exercise = fruitExercise,
        st_placements = [placed ''Apple'' ''Z1'', unplaced ''Carrot'']\<rparr>)) = [carrot]"
proof -
  have h: "onePlacementPerItem
     \<lparr>st_exercise = fruitExercise,
      st_placements = [placed ''Apple'' ''Z1'', unplaced ''Carrot'']\<rparr>"
    by (simp add: onePlacementPerItem_def example_defs)
  from operations_keep_one_placement_per_item
    [of "\<lparr>st_exercise = fruitExercise,
          st_placements = [placed ''Apple'' ''Z1'', unplaced ''Carrot'']\<rparr>"
        "DeleteItem ''Apple''"] h
  have "onePlacementPerItem (step (DeleteItem ''Apple'')
       \<lparr>st_exercise = fruitExercise,
        st_placements = [placed ''Apple'' ''Z1'', unplaced ''Carrot'']\<rparr>)"
    by blast
  with h show ?thesis
    by (simp add: deleteItem_def example_defs)
qed

section \<open>Saving\<close>

lemma saveExercise_remote_ok:
  "truthy courseId \<Longrightarrow> truthy slideId \<Longrightarrow>
   saveExercise stringify ResponseOk w ex courseId slideId b = (Inr True, b)"
  by (simp add: saveExercise_def)

lemma saveExercise_remote_failed:
  "truthy courseId \<Longrightarrow> truthy slideId \<Longrightarrow> remote \<noteq> ResponseOk \<Longrightarrow>
   saveExercise stringify remote w ex courseId slideId b
     = saveLocally stringify w ex (b\<lparr>toasts := toasts b @ [saveFailedToast]\<rparr>)"
  by (cases remote) (simp_all add: saveExercise_def)

text \<open>
  When the write throws after a failed remote call, the call rejects: no boolean is
  returned, nothing is stored, and the toast that says the changes were saved locally
  has been shown.
\<close>

lemma saveExercise_write_throws:
  assumes "truthy courseId" and "truthy slideId" and "remote \<noteq> ResponseOk"
  shows "saveExercise stringify remote WriteThrows ex courseId slideId b
         = (Inl StorageWriteError, b\<lparr>toasts := toasts b @ [saveFailedToast]\<rparr>)"
  by (simp add: saveExercise_remote_failed [OF assms] saveLocally_def setItem_def)

text \<open>
  C7, as stated, fails: with the locator 123/456, the remote call rejected and the
  local storage write throwing, \<open>saveExercise\<close> returns no boolean but rejects with
  the storage error, and nothing is stored under \<open>dragdrop-exercise\<close>.
\<close>

theorem save_rejects_when_write_throws:
  "fst (saveExercise (\<lambda>_. ''{}'') Rejected WriteThrows fruitExercise (Some ''123'') (Some ''456'')
          \<lparr>localStorage = Map.empty, toasts = []\<rparr>) = Inl StorageWriteError
   \<and> localStorage (snd (saveExercise (\<lambda>_. ''{}'') Rejected WriteThrows fruitExercise
          (Some ''123'') (Some ''456'') \<lparr>localStorage = Map.empty, toasts = []\<rparr>))
        ''dragdrop-exercise'' = None
   \<and> toasts (snd (saveExercise (\<lambda>_. ''{}'') Rejected WriteThrows fruitExercise
          (Some ''123'') (Some ''456'') \<lparr>localStorage = Map.empty, toasts = []\<rparr>))
        = [saveFailedToast]"
  by (simp add: saveExercise_def saveLocally_def setItem_def truthy_def)

text \<open>
  C7 (amended): with both parts of the locator present, a remote call that answers ok
  makes \<open>saveExercise\<close> return \<open>True\<close> and leave the browser state as it was, whatever
  the local storage would do. When the remote call fails (a response that is not ok,
  or a rejected call) and the local storage write succeeds, \<open>saveExercise\<close> returns
  \<open>False\<close>, the document is written under the fixed key \<open>dragdrop-exercise\<close> with
  every other key kept, and the failure toast is shown.
\<close>

theorem save_with_locator:
  assumes "truthy courseId" and "truthy slideId"
  shows "saveExercise stringify ResponseOk w ex courseId slideId b = (Inr True, b)
    \<and> (remote \<noteq> ResponseOk \<longrightarrow>
         fst (saveExercise stringify remote Written ex courseId slideId b) = Inr False
         \<and> localStorage (snd (saveExercise stringify remote Written ex courseId slideId b))
             = (localStorage b)(''dragdrop-exercise'' \<mapsto> stringify ex)
         \<and> toasts (snd (saveExercise stringify remote Written ex courseId slideId b))
             = toasts b @ [saveFailedToast])"
  using assms
  by (simp add: saveExercise_remote_ok saveExercise_remote_failed saveLocally_def setItem_def
      storageKey_def)

theorem save_with_locator_witness:
  "truthy (Some ''123'') \<and> truthy (Some ''456'') \<and> Rejected \<noteq> ResponseOk
   \<and> fst (saveExercise (\<lambda>_. ''{}'') Rejected Written fruitExercise (Some ''123'') (Some ''456'')
            \<lparr>localStorage = Map.empty, toasts = []\<rparr>) = Inr False
   \<and> localStorage (snd (saveExercise (\<lambda>_. ''{}'') Rejected Written fruitExercise (Some ''123'')
            (Some ''456'') \<lparr>localStorage = Map.empty, toasts = []\<rparr>)) ''dragdrop-exercise''
       = Some ''{}''
   \<and> toasts (snd (saveExercise (\<lambda>_. ''{}'') Rejected Written fruitExercise (Some ''123'')
            (Some ''456'') \<lparr>localStorage = Map.empty, toasts = []\<rparr>)) = [saveFailedToast]
   \<and> saveExercise (\<lambda>_. ''{}'') ResponseOk WriteThrows fruitExercise (Some ''123'') (Some ''456'')
            \<lparr>localStorage = Map.empty, toasts = []\<rparr>
       = (Inr True, \<lparr>localStorage = Map.empty, toasts = []\<rparr>)"
proof -
  have c: "truthy (Some ''123'')" and s: "truthy (Some ''456'')"
    by (simp_all add: truthy_def)
  have r: "Rejected \<noteq> ResponseOk" by simp
  from save_with_locator [OF c s, of "\<lambda>_. ''{}''" WriteThrows fruitExercise
      "\<lparr>localStorage = Map.empty, toasts = []\<rparr>" Rejected] r
  have "saveExercise (\<lambda>_. ''{}'') ResponseOk WriteThrows fruitExercise (Some ''123'') (Some ''456'')
            \<lparr>localStorage = Map.empty, toasts = []\<rparr>
       = (Inr True, \<lparr>localStorage = Map.empty, toasts = []\<rparr>)"
    and "fst (saveExercise (\<lambda>_. ''{}'') Rejected Written fruitExercise (Some ''123'') (Some ''456'')
            \<lparr>localStorage = Map.empty, toasts = []\<rparr>) = Inr False"
    and "localStorage (snd (saveExercise (\<lambda>_. ''{}'') Rejected Written fruitExercise (Some ''123'')
            (Some ''456'') \<lparr>localStorage = Map.empty, toasts = []\<rparr>)) ''dragdrop-exercise''
       = Some ''{}''"
    and "toasts (snd (saveExercise (\<lambda>_. ''{}'') Rejected Written fruitExercise (Some ''123'')
            (Some ''456'') \<lparr>localStorage = Map.empty, toasts = []\<rparr>)) = [saveFailedToast]"
    by simp_all
  with c s r show ?thesis by blast
qed

end
